theory Spec2Isabelle
  imports Complex_Main "HOL-Library.AList"
begin

section \<open>The Flower client of pybiscus (src/flower/client_fabric.py)\<close>

text \<open>
  The development embeds the class \<open>FlowerClient\<close>: its constructor and its methods
  \<open>get_parameters\<close>, \<open>set_parameters\<close>, \<open>fit\<close> and \<open>evaluate\<close>. A method
  takes the client and returns its outcome together with the client it leaves behind, also
  when it raises: a Python exception does not undo the assignments made before it.
  Calls of \<open>console.log\<close> only print; what is kept of them is the evaluation of their
  argument, which can raise (\<open>config['server_round']\<close>).
\<close>

subsection \<open>Values\<close>

text \<open>Python values held by the configuration, the sample counts and the metrics.\<close>

datatype pyval = PyNone | PyBool bool | PyInt int | PyFloat real | PyStr string

text \<open>
  A torch tensor and a numpy array, each a shape and the elements in row-major order.
  The element type is left open and is one for the slots and for the arrays offered to them:
  the embedding covers arrays of the dtype of their slot, for which nothing is cast.
  \<open>val.cpu().numpy()\<close> and \<open>torch.tensor(v)\<close> keep the shape and the elements.
\<close>

datatype 'a tensor = Tensor (shape: "nat list") (data: "'a list")

datatype 'a ndarray = NDArray (nd_shape: "nat list") (nd_data: "'a list")

definition numpy :: "'a tensor \<Rightarrow> 'a ndarray" where
  "numpy val = NDArray (shape val) (data val)"

definition torch_tensor :: "'a ndarray \<Rightarrow> 'a tensor" where
  "torch_tensor v = Tensor (nd_shape v) (nd_data v)"

text \<open>
  The model is seen through \<open>state_dict()\<close>: the named weight tensors in declaration
  order. An \<open>OrderedDict\<close> has no repeated key. The slots are separate tensors: a
  module in which two keys name one tensor (tied weights) is not covered.
\<close>

type_synonym 'a state_dict = "(string \<times> 'a tensor) list"

definition keys :: "'a state_dict \<Rightarrow> string list" where
  "keys sd = map fst sd"

definition wf_model :: "'a state_dict \<Rightarrow> bool" where
  "wf_model m = distinct (keys m)"

subsection \<open>Errors\<close>

text \<open>
  \<open>load_state_dict\<close> collects its complaints and raises one \<open>RuntimeError\<close> with
  all of them; a missing dictionary key raises \<open>KeyError\<close>; indexing an empty tensor
  raises \<open>IndexError\<close>; the training engine raises what it likes.
\<close>

datatype load_msg =
    Missing_keys "string list"
  | Unexpected_keys "string list"
  | Size_mismatch string

datatype error =
    RuntimeError "load_msg list"
  | KeyError string
  | IndexError
  | TrainingEngineError string

subsection \<open>torch: \<open>Module.load_state_dict\<close>\<close>

text \<open>
  \<open>param.copy_(input_param)\<close> writes the elements of the input into the parameter,
  which keeps its own shape. The elements are written as they are: the input has the dtype
  of the parameter (torch would cast an input of another dtype).
\<close>

definition tensor_copy :: "'a tensor \<Rightarrow> 'a tensor \<Rightarrow> 'a tensor" where
  "tensor_copy param input_param = Tensor (shape param) (data input_param)"

text \<open>
  The loop of \<open>Module._load_from_state_dict\<close> over the slots of the module. For each
  slot whose key is in the incoming dictionary: a one-dimensional input offered to a
  zero-dimensional slot is replaced by its element 0 (an \<open>IndexError\<close> when it has
  none, which leaves the loop at once); an input of another shape than the slot is recorded as
  a size mismatch and the slot skipped; otherwise the input is copied into the slot. A slot
  whose key is absent is recorded as missing when \<open>strict\<close>. The result is the
  exception that left the loop (if any), the module after the loop, the missing keys and the
  keys with a size mismatch. The copies are made in place while the loop runs: they are
  there whatever is raised afterwards. This is the loop of the generic \<open>Module\<close>; a
  module class with a load hook of its own is not covered (\<open>BatchNorm\<close> puts its
  current \<open>num_batches_tracked\<close> into a dictionary that lacks the key, so that this
  slot is never missing).
\<close>

fun load_from_state_dict ::
  "'a state_dict \<Rightarrow> 'a state_dict \<Rightarrow> bool \<Rightarrow>
     error option \<times> 'a state_dict \<times> string list \<times> string list" where
  "load_from_state_dict [] sd strict = (None, [], [], [])"
| "load_from_state_dict ((name, param) # rest) sd strict =
     (case map_of sd name of
        None \<Rightarrow>
          (case load_from_state_dict rest sd strict of
             (ex, rest', missing_keys, mismatched) \<Rightarrow>
               (ex, (name, param) # rest',
                (if strict then name # missing_keys else missing_keys), mismatched))
      | Some input_param \<Rightarrow>
          if length (shape param) = 0 \<and> length (shape input_param) = 1
             \<and> hd (shape input_param) = 0
          then (Some IndexError, (name, param) # rest, [], [])
          else
            let input_param =
                  (if length (shape param) = 0 \<and> length (shape input_param) = 1
                   then Tensor [] (take 1 (data input_param))
                   else input_param)
            in if shape input_param \<noteq> shape param
               then (case load_from_state_dict rest sd strict of
                       (ex, rest', missing_keys, mismatched) \<Rightarrow>
                         (ex, (name, param) # rest', missing_keys, name # mismatched))
               else (case load_from_state_dict rest sd strict of
                       (ex, rest', missing_keys, mismatched) \<Rightarrow>
                         (ex, (name, tensor_copy param input_param) # rest',
                          missing_keys, mismatched)))"

text \<open>
  \<open>Module.load_state_dict(state_dict, strict)\<close>: run the loop, then, when
  \<open>strict\<close>, add the keys of the dictionary that the module does not have and the
  keys it misses to the complaints, and raise \<open>RuntimeError\<close> if there is any
  complaint. The module returned is the one the loop left.
\<close>

definition load_state_dict ::
  "'a state_dict \<Rightarrow> 'a state_dict \<Rightarrow> bool \<Rightarrow> (error + unit) \<times> 'a state_dict" where
  "load_state_dict m sd strict =
     (case load_from_state_dict m sd strict of
        (Some ex, m', missing_keys, mismatched) \<Rightarrow> (Inl ex, m')
      | (None, m', missing_keys, mismatched) \<Rightarrow>
          let unexpected_keys =
                (if strict then filter (\<lambda>k. k \<notin> set (keys m)) (keys sd) else []);
              error_msgs =
                (if strict \<and> missing_keys \<noteq> [] then [Missing_keys missing_keys] else [])
                @ (if strict \<and> unexpected_keys \<noteq> [] then [Unexpected_keys unexpected_keys]
                   else [])
                @ map Size_mismatch mismatched
          in if error_msgs \<noteq> [] then (Inl (RuntimeError error_msgs), m')
             else (Inr (), m'))"

subsection \<open>The collaborators that are not in the file\<close>

text \<open>\<open>Fabric(**conf_fabric)\<close>: the execution backend, built from its configuration.\<close>

datatype 'f fabric = Fabric 'f

text \<open>
  Modelled from the spec: \<open>train_loop\<close> and \<open>test_loop\<close> of
  \<open>src/flower/loops_fabric.py\<close> and the model's \<open>configure_optimizers\<close> are not in
  the file, so they are parameters. By section 6 of the specification the training engine is
  \<open>train(execution_context, model, data_feed, optimizer, epochs) -> (loss, accuracy)\<close>
  and \<open>evaluate(execution_context, model, data_feed) -> (loss, accuracy)\<close>. Training
  mutates the model and the optimizer it is handed, so \<open>train_loop\<close> returns them too,
  also when it raises; the evaluation pass is handed no optimizer and only reads the model.
\<close>

record ('a, 'o, 'd, 'f) engine =
  configure_optimizers :: "'a state_dict \<Rightarrow> 'o"
  train_loop :: "'f fabric \<Rightarrow> 'a state_dict \<Rightarrow> 'd \<Rightarrow> 'o \<Rightarrow> pyval
                   \<Rightarrow> (error + pyval \<times> pyval) \<times> 'a state_dict \<times> 'o"
  test_loop :: "'f fabric \<Rightarrow> 'a state_dict \<Rightarrow> 'd \<Rightarrow> error + pyval \<times> pyval"

subsection \<open>\<open>FlowerClient\<close>\<close>

record ('a, 'o, 'd, 'f) FlowerClient =
  cid :: pyval
  model :: "'a state_dict"
  train_dataloader :: 'd
  validation_dataloader :: 'd
  conf_fabric :: 'f
  num_examples :: "string \<rightharpoonup> pyval"
  optimizer :: 'o
  fabric :: "'f fabric"

definition init ::
  "('a, 'o, 'd, 'f) engine \<Rightarrow> pyval \<Rightarrow> 'a state_dict \<Rightarrow> 'd \<Rightarrow> 'd \<Rightarrow> (string \<rightharpoonup> pyval) \<Rightarrow> 'f
     \<Rightarrow> ('a, 'o, 'd, 'f) FlowerClient" where
  "init eng cid0 model0 train_dataloader0 validation_dataloader0 num_examples0 conf_fabric0 =
     \<lparr> cid = cid0,
       model = model0,
       train_dataloader = train_dataloader0,
       validation_dataloader = validation_dataloader0,
       conf_fabric = conf_fabric0,
       num_examples = num_examples0,
       optimizer = configure_optimizers eng model0,
       fabric = Fabric conf_fabric0 \<rparr>"

text \<open>\<open>get_parameters\<close>: one array per entry of \<open>state_dict()\<close>, in its order.\<close>

definition get_parameters ::
  "('a, 'o, 'd, 'f) FlowerClient \<Rightarrow> (string \<rightharpoonup> pyval) \<Rightarrow> 'a ndarray list" where
  "get_parameters self config = map (\<lambda>(_, val). numpy val) (model self)"

text \<open>
  A dictionary built from a sequence of pairs: a key that comes again keeps its place and
  takes the later value.
\<close>

definition dict :: "('k \<times> 'v) list \<Rightarrow> ('k \<times> 'v) list" where
  "dict kvs = foldl (\<lambda>d (k, v). AList.update k v d) [] kvs"

text \<open>
  \<open>set_parameters\<close>: \<open>zip\<close> stops at the shorter of the keys and the arrays; the
  dictionary of tensors is handed to \<open>load_state_dict\<close> with \<open>strict=True\<close>.
\<close>

definition set_parameters ::
  "('a, 'o, 'd, 'f) FlowerClient \<Rightarrow> 'a ndarray list
     \<Rightarrow> (error + unit) \<times> ('a, 'o, 'd, 'f) FlowerClient" where
  "set_parameters self parameters =
     (let params_dict = zip (keys (model self)) parameters;
          state_dict = dict (map (\<lambda>(k, v). (k, torch_tensor v)) params_dict)
      in case load_state_dict (model self) state_dict True of
           (r, m') \<Rightarrow> (r, self\<lparr>model := m'\<rparr>))"

text \<open>
  \<open>fit\<close>. \<open>fabric.launch()\<close>, \<open>fabric.setup\<close> and \<open>fabric.setup_dataloaders\<close>
  wrap the model, the optimizer and the feed and hand the same objects on. The arguments of
  \<open>train_loop\<close> are evaluated before the call, \<open>config["local_epochs"]\<close> among them.
\<close>

definition fit ::
  "('a, 'o, 'd, 'f) engine \<Rightarrow> ('a, 'o, 'd, 'f) FlowerClient \<Rightarrow> 'a ndarray list
     \<Rightarrow> (string \<rightharpoonup> pyval)
     \<Rightarrow> (error + 'a ndarray list \<times> pyval \<times> (string \<rightharpoonup> pyval)) \<times> ('a, 'o, 'd, 'f) FlowerClient"
  where
  "fit eng self parameters config =
     (case set_parameters self parameters of
        (Inl e, self1) \<Rightarrow> (Inl e, self1)
      | (Inr _, self1) \<Rightarrow>
          (case config ''server_round'' of
             None \<Rightarrow> (Inl (KeyError ''server_round''), self1)
           | Some _ \<Rightarrow>
               (case config ''local_epochs'' of
                  None \<Rightarrow> (Inl (KeyError ''local_epochs''), self1)
                | Some epochs \<Rightarrow>
                    (case train_loop eng (fabric self1) (model self1) (train_dataloader self1)
                            (optimizer self1) epochs of
                       (r, m', o') \<Rightarrow>
                         let self2 = self1\<lparr>model := m', optimizer := o'\<rparr> in
                         (case r of
                            Inl e \<Rightarrow> (Inl e, self2)
                          | Inr (loss, accuracy) \<Rightarrow>
                              let metrics = [''accuracy'' \<mapsto> accuracy, ''loss'' \<mapsto> loss,
                                             ''cid'' \<mapsto> cid self2]
                              in (case num_examples self2 ''trainset'' of
                                    None \<Rightarrow> (Inl (KeyError ''trainset''), self2)
                                  | Some n \<Rightarrow>
                                      (Inr (get_parameters self2 Map.empty, n, metrics),
                                       self2)))))))"

text \<open>\<open>evaluate\<close>: the evaluation pass gets the backend, the model and the validation feed.\<close>

definition evaluate ::
  "('a, 'o, 'd, 'f) engine \<Rightarrow> ('a, 'o, 'd, 'f) FlowerClient \<Rightarrow> 'a ndarray list
     \<Rightarrow> (string \<rightharpoonup> pyval)
     \<Rightarrow> (error + pyval \<times> pyval \<times> (string \<rightharpoonup> pyval)) \<times> ('a, 'o, 'd, 'f) FlowerClient"
  where
  "evaluate eng self parameters config =
     (case set_parameters self parameters of
        (Inl e, self1) \<Rightarrow> (Inl e, self1)
      | (Inr _, self1) \<Rightarrow>
          (case config ''server_round'' of
             None \<Rightarrow> (Inl (KeyError ''server_round''), self1)
           | Some _ \<Rightarrow>
               (case test_loop eng (fabric self1) (model self1) (validation_dataloader self1) of
                  Inl e \<Rightarrow> (Inl e, self1)
                | Inr (loss, accuracy) \<Rightarrow>
                    let metrics = [''accuracy'' \<mapsto> accuracy, ''loss'' \<mapsto> loss,
                                   ''cid'' \<mapsto> cid self1]
                    in (case num_examples self1 ''valset'' of
                          None \<Rightarrow> (Inl (KeyError ''valset''), self1)
                        | Some n \<Rightarrow> (Inr (loss, n, metrics), self1)))))"

subsection \<open>Layouts and sequences of calls\<close>

text \<open>
  A parameter set agrees with the layout of the model when it has one array for each slot, of
  the shape of that slot, in the order of the slots.
\<close>

definition matches :: "'a state_dict \<Rightarrow> 'a ndarray list \<Rightarrow> bool" where
  "matches m parameters = (map nd_shape parameters = map (\<lambda>(k, param). shape param) m)"


text \<open>
  The coordinator drives the client through a sequence of calls of its three methods; each
  call goes on from the client the one before left, whether it returned or raised.
\<close>

datatype 'a call =
    Fit "'a ndarray list" "string \<rightharpoonup> pyval"
  | Evaluate "'a ndarray list" "string \<rightharpoonup> pyval"
  | GetParameters "string \<rightharpoonup> pyval"

fun step ::
  "('a, 'o, 'd, 'f) engine \<Rightarrow> ('a, 'o, 'd, 'f) FlowerClient \<Rightarrow> 'a call
     \<Rightarrow> ('a, 'o, 'd, 'f) FlowerClient" where
  "step eng self (Fit parameters config) = snd (fit eng self parameters config)"
| "step eng self (Evaluate parameters config) = snd (evaluate eng self parameters config)"
| "step eng self (GetParameters config) = self"

definition run ::
  "('a, 'o, 'd, 'f) engine \<Rightarrow> ('a, 'o, 'd, 'f) FlowerClient \<Rightarrow> 'a call list
     \<Rightarrow> ('a, 'o, 'd, 'f) FlowerClient" where
  "run eng self calls = foldl (step eng) self calls"

subsection \<open>A small client\<close>

text \<open>
  A model with two weight slots, of shapes \<open>(4,)\<close> and \<open>(2,2)\<close>, and an engine
  whose training pass adds one to every weight and counts its calls in the optimizer.
\<close>

definition demo_engine :: "(int, nat, string, unit) engine" where
  "demo_engine =
     \<lparr> configure_optimizers = (\<lambda>m. 0),
       train_loop = (\<lambda>fb m feed opt epochs.
          (Inr (PyFloat 1, PyFloat 0),
           map (\<lambda>(k, param). (k, Tensor (shape param) (map (\<lambda>x. x + 1) (data param)))) m,
           Suc opt)),
       test_loop = (\<lambda>fb m feed. Inr (PyFloat 2, PyFloat 1)) \<rparr>"

definition demo_model :: "int state_dict" where
  "demo_model = [(''w'', Tensor [4] [1, 2, 3, 4]), (''b'', Tensor [2, 2] [5, 6, 7, 8])]"

definition demo_client :: "(int, nat, string, unit) FlowerClient" where
  "demo_client =
     init demo_engine (PyInt 7) demo_model ''train'' ''val''
       [''trainset'' \<mapsto> PyInt 100, ''valset'' \<mapsto> PyInt 20] ()"

definition demo_parameters :: "int ndarray list" where
  "demo_parameters = [NDArray [4] [9, 9, 9, 9], NDArray [2, 2] [8, 8, 8, 8]]"

section \<open>Facts about the embedding\<close>

subsection \<open>The dictionary handed to \<open>load_state_dict\<close>\<close>

lemma update_fresh: "k \<notin> fst ` set al \<Longrightarrow> AList.update k v al = al @ [(k, v)]"
  by (induction al) auto

lemma foldl_update_distinct:
  "distinct (map fst (acc @ kvs)) \<Longrightarrow>
   foldl (\<lambda>d (k, v). AList.update k v d) acc kvs = acc @ kvs"
proof (induction kvs arbitrary: acc)
  case Nil
  then show ?case by simp
next
  case (Cons kv kvs)
  obtain k v where kv: "kv = (k, v)" by (cases kv)
  from Cons.prems kv have fresh: "k \<notin> fst ` set acc" by auto
  from Cons.prems kv have "distinct (map fst ((acc @ [(k, v)]) @ kvs))" by auto
  from Cons.IH [OF this] fresh kv show ?case by (simp add: update_fresh)
qed

lemma dict_distinct: "distinct (map fst kvs) \<Longrightarrow> dict kvs = kvs"
  using foldl_update_distinct [of "[]" kvs] by (simp add: dict_def)

lemma zip_torch: "map (\<lambda>(k, v). (k, torch_tensor v)) (zip ks ps) = zip ks (map torch_tensor ps)"
  by (induction ks ps rule: list_induct2') auto

lemma map_fst_zip_take: "map fst (zip ks vs) = take (length vs) ks"
  by (induction ks vs rule: list_induct2') auto

lemma distinct_zip_keys: "distinct ks \<Longrightarrow> distinct (map fst (zip ks vs))"
  by (simp add: map_fst_zip_take)

lemma set_parameters_load:
  assumes "wf_model (model self)"
  shows "set_parameters self parameters =
    (case load_state_dict (model self) (zip (keys (model self)) (map torch_tensor parameters)) True
     of (r, m') \<Rightarrow> (r, self\<lparr>model := m'\<rparr>))"
proof -
  have "distinct (map fst (zip (keys (model self)) (map torch_tensor parameters)))"
    using assms unfolding wf_model_def by (rule distinct_zip_keys)
  then show ?thesis
    by (simp add: set_parameters_def zip_torch dict_distinct)
qed

lemma load_keys:
  "load_from_state_dict m sd strict = (ex, m', missing, mismatched) \<Longrightarrow> keys m' = keys m"
proof (induction m arbitrary: ex m' missing mismatched)
  case Nil
  then show ?case by (simp add: keys_def)
next
  case (Cons slot rest)
  obtain name param where slot: "slot = (name, param)" by (cases slot)
  obtain ex0 r0 mi0 mm0 where rec: "load_from_state_dict rest sd strict = (ex0, r0, mi0, mm0)"
    by (cases "load_from_state_dict rest sd strict")
  from Cons.IH [OF rec] have "keys r0 = keys rest" .
  with Cons.prems show ?case
    by (auto simp: slot rec keys_def Let_def split: option.splits if_splits)
qed


subsection \<open>Loading a parameter set that fits\<close>

lemma load_all_match:
  assumes "\<forall>(name, param) \<in> set m. \<exists>t. map_of sd name = Some t \<and> shape t = shape param"
  shows "load_from_state_dict m sd strict =
           (None, map (\<lambda>(name, param). (name, the (map_of sd name))) m, [], [])"
  using assms
proof (induction m)
  case Nil
  then show ?case by simp
next
  case (Cons slot rest)
  obtain name param where slot: "slot = (name, param)" by (cases slot)
  from Cons.prems slot obtain t where t: "map_of sd name = Some t" "shape t = shape param"
    by auto
  from Cons.prems have
    "\<forall>(name, param) \<in> set rest. \<exists>t. map_of sd name = Some t \<and> shape t = shape param"
    by simp
  from Cons.IH [OF this] have rec:
    "load_from_state_dict rest sd strict =
       (None, map (\<lambda>(name, param). (name, the (map_of sd name))) rest, [], [])" .
  have "tensor_copy param t = t"
    using t(2) by (cases t) (simp add: tensor_copy_def)
  with t rec show ?case
    by (auto simp: slot)
qed

lemma map_of_zip_keys:
  assumes "distinct ks" "i < length ks" "i < length ts"
  shows "map_of (zip ks ts) (ks ! i) = Some (ts ! i)"
proof -
  let ?n = "min (length ks) (length ts)"
  have z: "zip ks ts = zip (take ?n ks) (take ?n ts)"
    by (metis take_zip zip_eq_conv length_zip take_all order_refl)
  have "map_of (zip (take ?n ks) (take ?n ts)) (take ?n ks ! i) = Some (take ?n ts ! i)"
    using assms by (intro map_of_zip_nth) auto
  with assms z show ?thesis by simp
qed


lemma load_zip_match:
  assumes "distinct (keys m)" "length m \<le> length ts"
    and "\<forall>i<length m. shape (ts ! i) = shape (snd (m ! i))"
  shows "load_from_state_dict m (zip (keys m) ts) strict = (None, zip (keys m) ts, [], [])"
proof -
  let ?sd = "zip (keys m) ts"
  have look: "map_of ?sd (fst (m ! i)) = Some (ts ! i)" if "i < length m" for i
    using map_of_zip_keys [of "keys m" i ts] assms(1,2) that by (simp add: keys_def)
  have "\<forall>(name, param) \<in> set m. \<exists>t. map_of ?sd name = Some t \<and> shape t = shape param"
  proof (clarify)
    fix name param assume "(name, param) \<in> set m"
    then obtain i where i: "i < length m" "m ! i = (name, param)"
      by (auto simp: in_set_conv_nth)
    with look [of i] assms(3) show "\<exists>t. map_of ?sd name = Some t \<and> shape t = shape param"
      by auto
  qed
  then have "load_from_state_dict m ?sd strict =
      (None, map (\<lambda>(name, param). (name, the (map_of ?sd name))) m, [], [])"
    by (rule load_all_match)
  moreover have "map (\<lambda>(name, param). (name, the (map_of ?sd name))) m = ?sd"
  proof (rule nth_equalityI)
    show "length (map (\<lambda>(name, param). (name, the (map_of ?sd name))) m) = length ?sd"
      using assms(2) by (simp add: keys_def)
  next
    fix i assume "i < length (map (\<lambda>(name, param). (name, the (map_of ?sd name))) m)"
    then have i: "i < length m" by simp
    with look [of i] assms(2)
    show "map (\<lambda>(name, param). (name, the (map_of ?sd name))) m ! i = ?sd ! i"
      by (simp add: keys_def case_prod_beta)
  qed
  ultimately show ?thesis by simp
qed

lemma no_unexpected_keys:
  "filter (\<lambda>k. k \<notin> set (keys m)) (keys (zip (keys m) ts)) = []"
proof -
  have "set (take (length ts) (keys m)) \<subseteq> set (keys m)" by (rule set_take_subset)
  then show ?thesis
    by (auto simp: keys_def map_fst_zip_take filter_empty_conv)
qed

lemma load_state_dict_match:
  assumes "distinct (keys m)" "length m \<le> length ts"
    and "\<forall>i<length m. shape (ts ! i) = shape (snd (m ! i))"
  shows "load_state_dict m (zip (keys m) ts) True = (Inr (), zip (keys m) ts)"
  using load_zip_match [OF assms, of True] no_unexpected_keys [of m ts]
  by (simp add: load_state_dict_def)

lemma set_parameters_ok:
  assumes "wf_model (model self)" "length (model self) \<le> length ps"
    and "\<forall>i<length (model self). nd_shape (ps ! i) = shape (snd (model self ! i))"
  shows "set_parameters self ps =
           (Inr (), self\<lparr>model := zip (keys (model self)) (map torch_tensor ps)\<rparr>)"
proof -
  have "load_state_dict (model self) (zip (keys (model self)) (map torch_tensor ps)) True
          = (Inr (), zip (keys (model self)) (map torch_tensor ps))"
    using assms by (intro load_state_dict_match) (auto simp: wf_model_def torch_tensor_def)
  then show ?thesis
    by (simp add: set_parameters_load [OF assms(1)])
qed

lemma matches_nth:
  assumes "matches m ps"
  shows "length ps = length m" and "\<forall>i<length m. nd_shape (ps ! i) = shape (snd (m ! i))"
proof -
  from assms have eq: "map nd_shape ps = map (\<lambda>(k, param). shape param) m"
    by (simp add: matches_def)
  then show len: "length ps = length m" by (rule map_eq_imp_length_eq)
  show "\<forall>i<length m. nd_shape (ps ! i) = shape (snd (m ! i))"
  proof (intro allI impI)
    fix i assume i: "i < length m"
    with len have "map nd_shape ps ! i = nd_shape (ps ! i)" by simp
    moreover from i have "map (\<lambda>(k, param). shape param) m ! i = shape (snd (m ! i))"
      by (simp add: case_prod_beta)
    ultimately show "nd_shape (ps ! i) = shape (snd (m ! i))" using eq by simp
  qed
qed

lemma set_parameters_matches:
  assumes "wf_model (model self)" "matches (model self) ps"
  shows "set_parameters self (ps @ extra) =
           (Inr (), self\<lparr>model := zip (keys (model self)) (map torch_tensor ps)\<rparr>)"
proof -
  note mt = matches_nth [OF assms(2)]
  have "set_parameters self (ps @ extra) =
      (Inr (), self\<lparr>model := zip (keys (model self)) (map torch_tensor (ps @ extra))\<rparr>)"
    using assms(1) mt by (intro set_parameters_ok) (auto simp: nth_append)
  moreover have "zip (keys (model self)) (map torch_tensor (ps @ extra))
      = zip (keys (model self)) (map torch_tensor ps)"
    using mt(1) by (simp add: keys_def zip_append2)
  ultimately show ?thesis by simp
qed

subsection \<open>Loading a parameter set that does not fit\<close>






subsection \<open>Loading twice, and what \<open>set_parameters\<close> leaves alone\<close>

lemma load_again:
  assumes "load_from_state_dict m sd True = (None, m', [], [])"
  shows "load_from_state_dict m' sd True = (None, m', [], [])"
  using assms
proof (induction m arbitrary: m')
  case Nil
  then show ?case by simp
next
  case (Cons slot rest)
  obtain k p where slot: "slot = (k, p)" by (cases slot)
  obtain ex0 r0 mi0 mm0 where rec: "load_from_state_dict rest sd True = (ex0, r0, mi0, mm0)"
    by (cases "load_from_state_dict rest sd True")
  from Cons.prems have parts: "ex0 = None" "mi0 = []" "mm0 = []"
    by (auto simp: slot rec Let_def split: option.splits if_splits)
  from Cons.IH [OF rec [unfolded parts]] have again: "load_from_state_dict r0 sd True = (None, r0, [], [])" .
  from Cons.prems obtain t where t: "map_of sd k = Some t"
    by (auto simp: slot rec split: option.splits)
  show ?case
  proof (cases "length (shape p) = 0 \<and> length (shape t) = 1")
    case True
    with Cons.prems t have "m' = (k, tensor_copy p (Tensor [] (take 1 (data t)))) # r0"
      by (auto simp: slot rec parts Let_def split: if_splits)
    with True t again Cons.prems show ?thesis
      by (auto simp: slot rec parts tensor_copy_def Let_def split: if_splits)
  next
    case False
    with Cons.prems t have "m' = (k, tensor_copy p t) # r0" and "shape t = shape p"
      by (auto simp: slot rec parts Let_def split: if_splits)
    with False t again show ?thesis
      by (auto simp: tensor_copy_def Let_def)
  qed
qed

lemma load_state_dict_again:
  assumes "load_state_dict m sd True = (Inr (), m')"
  shows "load_state_dict m' sd True = (Inr (), m')"
proof -
  obtain ex m1 mi mm where l: "load_from_state_dict m sd True = (ex, m1, mi, mm)"
    by (cases "load_from_state_dict m sd True")
  from assms l have parts: "ex = None" "m1 = m'" "mi = []" "mm = []"
    and un: "filter (\<lambda>k. k \<notin> set (keys m)) (keys sd) = []"
    by (auto simp: load_state_dict_def Let_def split: option.splits if_splits)
  from l parts have l': "load_from_state_dict m sd True = (None, m', [], [])" by simp
  from load_keys [OF l'] have "keys m' = keys m" .
  with load_again [OF l'] un show ?thesis
    by (simp add: load_state_dict_def)
qed

lemma set_parameters_frame:
  "snd (set_parameters self ps) = self\<lparr>model := model (snd (set_parameters self ps))\<rparr>"
  by (simp add: set_parameters_def Let_def split: prod.splits)

lemma set_parameters_keys:
  "keys (model (snd (set_parameters self ps))) = keys (model self)"
proof -
  let ?sd = "dict (map (\<lambda>(k, v). (k, torch_tensor v)) (zip (keys (model self)) ps))"
  obtain ex m' mi mm where l: "load_from_state_dict (model self) ?sd True = (ex, m', mi, mm)"
    by (cases "load_from_state_dict (model self) ?sd True")
  from load_keys [OF l] have "keys m' = keys (model self)" .
  with l show ?thesis
    by (auto simp: set_parameters_def load_state_dict_def Let_def split: option.splits)
qed


lemma set_parameters_again:
  assumes "set_parameters self ps = (Inr (), self1)"
  shows "set_parameters self1 ps = (Inr (), self1)"
proof -
  let ?sd = "dict (map (\<lambda>(k, v). (k, torch_tensor v)) (zip (keys (model self)) ps))"
  from assms have l: "load_state_dict (model self) ?sd True = (Inr (), model self1)"
    and s1: "self1 = self\<lparr>model := model self1\<rparr>"
    by (auto simp: set_parameters_def Let_def split: prod.splits)
  from set_parameters_keys [of self ps] assms have k: "keys (model self1) = keys (model self)"
    by simp
  from load_state_dict_again [OF l] k show ?thesis
    by (simp add: set_parameters_def Let_def)
qed

subsection \<open>Encoding\<close>

lemma demo_wf: "wf_model (model demo_client)"
  by (simp add: demo_client_def init_def demo_model_def wf_model_def keys_def)

lemma zip_keys_roundtrip:
  "zip (keys m) (map torch_tensor (map (\<lambda>(k, val). numpy val) m)) = m"
  by (induction m) (auto simp: keys_def torch_tensor_def numpy_def)

lemma matches_get_parameters: "matches (model self) (get_parameters self config)"
  by (simp add: matches_def get_parameters_def numpy_def case_prod_beta comp_def)

section \<open>The claims\<close>

text \<open>
  C3. Decoding what was just encoded changes nothing: for every weight state of the model
  (an ordered dictionary, so without a repeated key), \<open>set_parameters\<close> applied to the
  result of \<open>get_parameters\<close> returns normally and leaves the client, and so the number
  of slots, their shapes and their values, as it was.
\<close>

theorem set_get_roundtrip:
  assumes "wf_model (model self)"
  shows "set_parameters self (get_parameters self config) = (Inr (), self)"
proof -
  have "set_parameters self (get_parameters self config @ []) =
      (Inr (), self\<lparr>model := zip (keys (model self)) (map torch_tensor (get_parameters self config))\<rparr>)"
    using assms matches_get_parameters by (rule set_parameters_matches)
  then show ?thesis
    unfolding get_parameters_def zip_keys_roundtrip by simp
qed

theorem set_get_roundtrip_witness:
  "wf_model (model demo_client)
   \<and> set_parameters demo_client (get_parameters demo_client Map.empty) = (Inr (), demo_client)"
proof -
  have wf: "wf_model (model demo_client)"
    by (simp add: demo_client_def init_def demo_model_def wf_model_def keys_def)
  from set_get_roundtrip [OF wf, of Map.empty] wf show ?thesis by simp
qed

text \<open>
  C9. \<open>get_parameters\<close> does not look at its \<open>config\<close> argument and returns one array
  per slot in the order of the model's \<open>state_dict()\<close>: slot \<open>i\<close> of the result is the
  array of slot \<open>i\<close> of the model. Hence two models of the same architecture (the same
  shapes in the same order) give sequences with the same shapes in the same order.
\<close>

theorem get_parameters_order:
  "get_parameters self config = get_parameters self config'
   \<and> length (get_parameters self config) = length (model self)
   \<and> (\<forall>i<length (model self). get_parameters self config ! i = numpy (snd (model self ! i)))
   \<and> (map (\<lambda>kv. shape (snd kv)) (model self) = map (\<lambda>kv. shape (snd kv)) (model other)
        \<longrightarrow> map nd_shape (get_parameters self config) = map nd_shape (get_parameters other config'))"
  by (simp add: get_parameters_def numpy_def case_prod_beta comp_def)

theorem get_parameters_order_witness:
  "map (\<lambda>kv. shape (snd kv)) (model demo_client)
     = map (\<lambda>kv. shape (snd kv)) (model (demo_client\<lparr>model := zip (keys demo_model) (map torch_tensor demo_parameters)\<rparr>))
   \<and> map nd_shape (get_parameters demo_client Map.empty)
     = map nd_shape (get_parameters (demo_client\<lparr>model := zip (keys demo_model) (map torch_tensor demo_parameters)\<rparr>)
         [''server_round'' \<mapsto> PyInt 1])
   \<and> get_parameters demo_client Map.empty ! 1 = NDArray [2, 2] [5, 6, 7, 8]"
proof -
  let ?other = "demo_client\<lparr>model := zip (keys demo_model) (map torch_tensor demo_parameters)\<rparr>"
  have same: "map (\<lambda>kv. shape (snd kv)) (model demo_client)
     = map (\<lambda>kv. shape (snd kv)) (model ?other)"
    by (simp add: demo_client_def init_def demo_model_def demo_parameters_def keys_def
        torch_tensor_def)
  have one: "(1::nat) < length (model demo_client)"
    by (simp add: demo_client_def init_def demo_model_def)
  have val: "numpy (snd (model demo_client ! 1)) = NDArray [2, 2] [5, 6, 7, 8]"
    by (simp add: demo_client_def init_def demo_model_def numpy_def)
  note order =
    get_parameters_order [of demo_client Map.empty "[''server_round'' \<mapsto> PyInt 1]" ?other]
  from order same have shapes: "map nd_shape (get_parameters demo_client Map.empty)
     = map nd_shape (get_parameters ?other [''server_round'' \<mapsto> PyInt 1])"
    by blast
  from order one have "get_parameters demo_client Map.empty ! 1
     = numpy (snd (model demo_client ! 1))"
    by blast
  with val same shapes show ?thesis by simp
qed

lemma set_parameters_loads:
  assumes "wf_model (model self)" "matches (model self) ps"
  shows "set_parameters self ps =
           (Inr (), self\<lparr>model := zip (keys (model self)) (map torch_tensor ps)\<rparr>)"
  using set_parameters_matches [OF assms, of "[]"] by simp

lemma demo_matches: "matches (model demo_client) demo_parameters"
  by (simp add: matches_def demo_client_def init_def demo_model_def demo_parameters_def)

subsection \<open>The two rounds on well-formed input\<close>

text \<open>
  C4. On a parameter set that matches the model and a config with \<open>server_round\<close> and
  \<open>local_epochs\<close>, when the training engine returns \<open>(loss, accuracy)\<close> and leaves
  the model with weights \<open>m'\<close>, \<open>fit\<close> returns the encoding of \<open>m'\<close> (what
  \<open>get_parameters\<close> gives on the client after training), the entry \<open>trainset\<close> of the
  sample counts given at construction, and a metrics map with exactly the keys
  \<open>accuracy\<close>, \<open>loss\<close> and \<open>cid\<close>, the last being the client's \<open>cid\<close>.
\<close>

theorem fit_returns:
  assumes "wf_model (model self)" and "matches (model self) ps"
    and "config ''server_round'' = Some r" and "config ''local_epochs'' = Some epochs"
    and "train_loop eng (fabric self) (zip (keys (model self)) (map torch_tensor ps))
           (train_dataloader self) (optimizer self) epochs = (Inr (loss, accuracy), m', o')"
    and "num_examples self ''trainset'' = Some n"
  shows "\<exists>metrics.
           fit eng self ps config
             = (Inr (get_parameters (self\<lparr>model := m', optimizer := o'\<rparr>) Map.empty, n, metrics),
                self\<lparr>model := m', optimizer := o'\<rparr>)
           \<and> get_parameters (self\<lparr>model := m', optimizer := o'\<rparr>) Map.empty
               = map (\<lambda>(k, val). numpy val) m'
           \<and> dom metrics = {''accuracy'', ''loss'', ''cid''}
           \<and> metrics ''accuracy'' = Some accuracy
           \<and> metrics ''loss'' = Some loss
           \<and> metrics ''cid'' = Some (cid self)"
proof -
  let ?metrics = "[''accuracy'' \<mapsto> accuracy, ''loss'' \<mapsto> loss, ''cid'' \<mapsto> cid self]"
  have "fit eng self ps config
      = (Inr (get_parameters (self\<lparr>model := m', optimizer := o'\<rparr>) Map.empty, n, ?metrics),
         self\<lparr>model := m', optimizer := o'\<rparr>)"
    using assms(3-6) by (simp add: fit_def Let_def set_parameters_loads [OF assms(1,2)])
  moreover have "dom ?metrics = {''accuracy'', ''loss'', ''cid''}" by auto
  moreover have "get_parameters (self\<lparr>model := m', optimizer := o'\<rparr>) Map.empty
               = map (\<lambda>(k, val). numpy val) m'"
    by (simp add: get_parameters_def)
  ultimately show ?thesis by auto
qed

theorem fit_returns_witness:
  "wf_model (model demo_client) \<and> matches (model demo_client) demo_parameters
   \<and> (\<exists>metrics.
         fst (fit demo_engine demo_client demo_parameters
                [''server_round'' \<mapsto> PyInt 1, ''local_epochs'' \<mapsto> PyInt 1])
           = Inr ([NDArray [4] [10, 10, 10, 10], NDArray [2, 2] [9, 9, 9, 9]], PyInt 100, metrics)
         \<and> dom metrics = {''accuracy'', ''loss'', ''cid''}
         \<and> metrics ''cid'' = Some (PyInt 7))"
proof -
  let ?config = "[''server_round'' \<mapsto> PyInt 1, ''local_epochs'' \<mapsto> PyInt 1]"
  let ?m' = "[(''w'', Tensor [4] [10, 10, 10, 10]), (''b'', Tensor [2, 2] [9, 9, 9, 9])]"
  have sr: "?config ''server_round'' = Some (PyInt 1)" by simp
  have le: "?config ''local_epochs'' = Some (PyInt 1)" by simp
  have tl: "train_loop demo_engine (fabric demo_client)
           (zip (keys (model demo_client)) (map torch_tensor demo_parameters))
           (train_dataloader demo_client) (optimizer demo_client) (PyInt 1)
         = (Inr (PyFloat 1, PyFloat 0), ?m', Suc 0)"
    by (simp add: demo_engine_def demo_client_def init_def demo_model_def demo_parameters_def
        keys_def torch_tensor_def)
  have ne: "num_examples demo_client ''trainset'' = Some (PyInt 100)"
    by (simp add: demo_client_def init_def)
  have c: "cid demo_client = PyInt 7" by (simp add: demo_client_def init_def)
  have enc: "map (\<lambda>(k, val). numpy val) ?m'
      = [NDArray [4] [10, 10, 10, 10], NDArray [2, 2] [9, 9, 9, 9]]"
    by (simp add: numpy_def)
  from fit_returns [where config = "[''server_round'' \<mapsto> PyInt 1, ''local_epochs'' \<mapsto> PyInt 1]",
      OF demo_wf demo_matches sr le tl ne] obtain metrics where
    "fit demo_engine demo_client demo_parameters ?config
      = (Inr (get_parameters (demo_client\<lparr>model := ?m', optimizer := Suc 0\<rparr>) Map.empty,
              PyInt 100, metrics),
         demo_client\<lparr>model := ?m', optimizer := Suc 0\<rparr>)"
    "get_parameters (demo_client\<lparr>model := ?m', optimizer := Suc 0\<rparr>) Map.empty
       = map (\<lambda>(k, val). numpy val) ?m'"
    "dom metrics = {''accuracy'', ''loss'', ''cid''}"
    "metrics ''cid'' = Some (cid demo_client)"
    by blast
  with enc c have "fst (fit demo_engine demo_client demo_parameters ?config)
           = Inr ([NDArray [4] [10, 10, 10, 10], NDArray [2, 2] [9, 9, 9, 9]], PyInt 100, metrics)
         \<and> dom metrics = {''accuracy'', ''loss'', ''cid''}
         \<and> metrics ''cid'' = Some (PyInt 7)"
    by simp
  with demo_wf demo_matches show ?thesis by blast
qed

text \<open>
  C5. On a parameter set that matches the model and a config with \<open>server_round\<close>, when
  the evaluation pass over the validation feed returns \<open>(loss, accuracy)\<close>,
  \<open>evaluate\<close> returns that loss, the entry \<open>valset\<close> of the sample counts and the
  metrics map of \<open>accuracy\<close>, \<open>loss\<close> and \<open>cid\<close>. The result holds no parameter
  set (its type has no array in it), and the client it leaves has the weights that
  \<open>set_parameters\<close> loaded.
\<close>

theorem evaluate_returns:
  assumes "wf_model (model self)" and "matches (model self) ps"
    and "config ''server_round'' = Some r"
    and "test_loop eng (fabric self) (zip (keys (model self)) (map torch_tensor ps))
           (validation_dataloader self) = Inr (loss, accuracy)"
    and "num_examples self ''valset'' = Some n"
  shows "\<exists>metrics.
           evaluate eng self ps config
             = (Inr (loss, n, metrics),
                self\<lparr>model := zip (keys (model self)) (map torch_tensor ps)\<rparr>)
           \<and> dom metrics = {''accuracy'', ''loss'', ''cid''}
           \<and> metrics ''accuracy'' = Some accuracy
           \<and> metrics ''loss'' = Some loss
           \<and> metrics ''cid'' = Some (cid self)"
proof -
  let ?metrics = "[''accuracy'' \<mapsto> accuracy, ''loss'' \<mapsto> loss, ''cid'' \<mapsto> cid self]"
  have "evaluate eng self ps config
      = (Inr (loss, n, ?metrics), self\<lparr>model := zip (keys (model self)) (map torch_tensor ps)\<rparr>)"
    using assms(3-5) by (simp add: evaluate_def set_parameters_loads [OF assms(1,2)])
  moreover have "dom ?metrics = {''accuracy'', ''loss'', ''cid''}" by auto
  ultimately show ?thesis by auto
qed

theorem evaluate_returns_witness:
  "wf_model (model demo_client) \<and> matches (model demo_client) demo_parameters
   \<and> (\<exists>metrics.
         fst (evaluate demo_engine demo_client demo_parameters [''server_round'' \<mapsto> PyInt 1])
           = Inr (PyFloat 2, PyInt 20, metrics)
         \<and> dom metrics = {''accuracy'', ''loss'', ''cid''}
         \<and> metrics ''accuracy'' = Some (PyFloat 1)
         \<and> metrics ''cid'' = Some (PyInt 7))"
proof -
  let ?config = "[''server_round'' \<mapsto> PyInt 1]"
  have sr: "?config ''server_round'' = Some (PyInt 1)" by simp
  have tl: "test_loop demo_engine (fabric demo_client)
           (zip (keys (model demo_client)) (map torch_tensor demo_parameters))
           (validation_dataloader demo_client) = Inr (PyFloat 2, PyFloat 1)"
    by (simp add: demo_engine_def)
  have ne: "num_examples demo_client ''valset'' = Some (PyInt 20)"
    by (simp add: demo_client_def init_def)
  have c: "cid demo_client = PyInt 7" by (simp add: demo_client_def init_def)
  from evaluate_returns [where config = "[''server_round'' \<mapsto> PyInt 1]",
      OF demo_wf demo_matches sr tl ne] obtain metrics where
    "evaluate demo_engine demo_client demo_parameters ?config
      = (Inr (PyFloat 2, PyInt 20, metrics),
         demo_client\<lparr>model := zip (keys (model demo_client)) (map torch_tensor demo_parameters)\<rparr>)"
    "dom metrics = {''accuracy'', ''loss'', ''cid''}"
    "metrics ''accuracy'' = Some (PyFloat 1)"
    "metrics ''cid'' = Some (cid demo_client)"
    by blast
  with c have "fst (evaluate demo_engine demo_client demo_parameters ?config)
           = Inr (PyFloat 2, PyInt 20, metrics)
         \<and> dom metrics = {''accuracy'', ''loss'', ''cid''}
         \<and> metrics ''accuracy'' = Some (PyFloat 1)
         \<and> metrics ''cid'' = Some (PyInt 7)"
    by simp
  with demo_wf demo_matches show ?thesis by blast
qed

subsection \<open>Rounds that fail\<close>

text \<open>
  C6. When the config has no key \<open>local_epochs\<close>, \<open>fit\<close> raises: the error of
  \<open>set_parameters\<close> if that raised, else \<open>KeyError\<close> for \<open>server_round\<close> if
  that key is absent too, else \<open>KeyError\<close> for \<open>local_epochs\<close>. No epoch count is
  put in its place, and the training engine is not called: the outcome and the client left
  are the same whatever the engine is.
\<close>

theorem fit_requires_local_epochs:
  assumes "config ''local_epochs'' = None"
  shows "(\<exists>e. fst (fit eng self ps config) = Inl e)
         \<and> fst (fit eng self ps config)
             = (case fst (set_parameters self ps) of
                  Inl e \<Rightarrow> Inl e
                | Inr u \<Rightarrow> (case config ''server_round'' of
                             None \<Rightarrow> Inl (KeyError ''server_round'')
                           | Some r \<Rightarrow> Inl (KeyError ''local_epochs'')))
         \<and> (\<forall>eng'. fit eng' self ps config = fit eng self ps config)"
  using assms
  by (cases "set_parameters self ps")
     (auto simp: fit_def split: sum.splits option.splits)

theorem fit_requires_local_epochs_witness:
  "[''server_round'' \<mapsto> PyInt 1] ''local_epochs'' = None
   \<and> fst (fit demo_engine demo_client demo_parameters [''server_round'' \<mapsto> PyInt 1])
       = Inl (KeyError ''local_epochs'')"
proof -
  have none: "[''server_round'' \<mapsto> PyInt 1] ''local_epochs'' = None" by simp
  have "fst (set_parameters demo_client demo_parameters) = Inr ()"
    by (simp add: set_parameters_loads [OF demo_wf demo_matches])
  with fit_requires_local_epochs [where config = "[''server_round'' \<mapsto> PyInt 1]"
      and eng = demo_engine and self = demo_client and ps = demo_parameters, OF none] none
  show ?thesis by simp
qed

text \<open>
  C10, as the code has it. When the config has no key \<open>server_round\<close>, \<open>fit\<close>
  and \<open>evaluate\<close> raise. The key is read after \<open>set_parameters\<close> has run. If
  \<open>set_parameters\<close> returned, as it does for every parameter set that matches the
  model, the error is \<open>KeyError\<close> for \<open>server_round\<close> and the client is the one
  \<open>set_parameters\<close> left, whose weights are the incoming ones when the parameter set
  matches. If \<open>set_parameters\<close> raised, the error is the one it raised, not a
  \<open>KeyError\<close>: the key is never read.
\<close>

theorem server_round_required:
  assumes "config ''server_round'' = None"
  shows "(\<exists>e. fst (fit eng self ps config) = Inl e)
         \<and> (\<exists>e. fst (evaluate eng self ps config) = Inl e)
         \<and> (fst (set_parameters self ps) = Inr () \<longrightarrow>
               fit eng self ps config
                 = (Inl (KeyError ''server_round''), snd (set_parameters self ps))
             \<and> evaluate eng self ps config
                 = (Inl (KeyError ''server_round''), snd (set_parameters self ps)))
         \<and> (\<forall>e. fst (set_parameters self ps) = Inl e \<longrightarrow>
               fit eng self ps config = (Inl e, snd (set_parameters self ps))
             \<and> evaluate eng self ps config = (Inl e, snd (set_parameters self ps)))
         \<and> (wf_model (model self) \<and> matches (model self) ps \<longrightarrow>
               fst (set_parameters self ps) = Inr ()
             \<and> model (snd (fit eng self ps config))
                 = zip (keys (model self)) (map torch_tensor ps)
             \<and> model (snd (evaluate eng self ps config))
                 = zip (keys (model self)) (map torch_tensor ps))"
proof -
  have raised: "\<forall>e. fst (set_parameters self ps) = Inl e \<longrightarrow>
               fit eng self ps config = (Inl e, snd (set_parameters self ps))
             \<and> evaluate eng self ps config = (Inl e, snd (set_parameters self ps))"
    by (cases "set_parameters self ps")
       (auto simp: fit_def evaluate_def split: sum.splits)
  have fails: "(\<exists>e. fst (fit eng self ps config) = Inl e)
         \<and> (\<exists>e. fst (evaluate eng self ps config) = Inl e)"
    using assms
    by (cases "set_parameters self ps")
       (auto simp: fit_def evaluate_def split: sum.splits)
  have after: "fst (set_parameters self ps) = Inr () \<longrightarrow>
               fit eng self ps config
                 = (Inl (KeyError ''server_round''), snd (set_parameters self ps))
             \<and> evaluate eng self ps config
                 = (Inl (KeyError ''server_round''), snd (set_parameters self ps))"
    using assms
    by (cases "set_parameters self ps")
       (auto simp: fit_def evaluate_def split: sum.splits)
  have loaded: "wf_model (model self) \<and> matches (model self) ps \<longrightarrow>
               fst (set_parameters self ps) = Inr ()
             \<and> model (snd (fit eng self ps config))
                 = zip (keys (model self)) (map torch_tensor ps)
             \<and> model (snd (evaluate eng self ps config))
                 = zip (keys (model self)) (map torch_tensor ps)"
    using assms by (auto simp: fit_def evaluate_def set_parameters_loads)
  from fails after raised loaded show ?thesis by blast
qed

theorem server_round_required_witness:
  "[''local_epochs'' \<mapsto> PyInt 1] ''server_round'' = None
   \<and> wf_model (model demo_client) \<and> matches (model demo_client) demo_parameters
   \<and> fst (fit demo_engine demo_client demo_parameters [''local_epochs'' \<mapsto> PyInt 1])
       = Inl (KeyError ''server_round'')
   \<and> fst (evaluate demo_engine demo_client demo_parameters [''local_epochs'' \<mapsto> PyInt 1])
       = Inl (KeyError ''server_round'')
   \<and> model (snd (fit demo_engine demo_client demo_parameters [''local_epochs'' \<mapsto> PyInt 1]))
       = [(''w'', Tensor [4] [9, 9, 9, 9]), (''b'', Tensor [2, 2] [8, 8, 8, 8])]
   \<and> model (snd (evaluate demo_engine demo_client demo_parameters [''local_epochs'' \<mapsto> PyInt 1]))
       = [(''w'', Tensor [4] [9, 9, 9, 9]), (''b'', Tensor [2, 2] [8, 8, 8, 8])]"
proof -
  have none: "[''local_epochs'' \<mapsto> PyInt 1] ''server_round'' = None" by simp
  have new: "zip (keys (model demo_client)) (map torch_tensor demo_parameters)
      = [(''w'', Tensor [4] [9, 9, 9, 9]), (''b'', Tensor [2, 2] [8, 8, 8, 8])]"
    by (simp add: demo_client_def init_def demo_model_def demo_parameters_def keys_def
        torch_tensor_def)
  note sr = server_round_required [where config = "[''local_epochs'' \<mapsto> PyInt 1]"
      and eng = demo_engine and self = demo_client and ps = demo_parameters, OF none]
  from sr demo_wf demo_matches have ok: "fst (set_parameters demo_client demo_parameters) = Inr ()"
    by blast
  from sr ok have
    "fit demo_engine demo_client demo_parameters [''local_epochs'' \<mapsto> PyInt 1]
       = (Inl (KeyError ''server_round''), snd (set_parameters demo_client demo_parameters))"
    "evaluate demo_engine demo_client demo_parameters [''local_epochs'' \<mapsto> PyInt 1]
       = (Inl (KeyError ''server_round''), snd (set_parameters demo_client demo_parameters))"
    by blast+
  moreover from sr demo_wf demo_matches have
    "model (snd (fit demo_engine demo_client demo_parameters [''local_epochs'' \<mapsto> PyInt 1]))
       = zip (keys (model demo_client)) (map torch_tensor demo_parameters)"
    "model (snd (evaluate demo_engine demo_client demo_parameters [''local_epochs'' \<mapsto> PyInt 1]))
       = zip (keys (model demo_client)) (map torch_tensor demo_parameters)"
    by blast+
  ultimately show ?thesis using none demo_wf demo_matches new by simp
qed

theorem server_round_required_counterexample:
  "(Map.empty :: string \<rightharpoonup> pyval) ''server_round'' = None
   \<and> fst (fit demo_engine demo_client [NDArray [3] [9, 9, 9]] Map.empty)
       = Inl (RuntimeError [Missing_keys [''b''], Size_mismatch ''w''])
   \<and> fst (evaluate demo_engine demo_client [NDArray [3] [9, 9, 9]] Map.empty)
       = Inl (RuntimeError [Missing_keys [''b''], Size_mismatch ''w''])
   \<and> model (snd (fit demo_engine demo_client [NDArray [3] [9, 9, 9]] Map.empty))
       = model demo_client
   \<and> model (snd (evaluate demo_engine demo_client [NDArray [3] [9, 9, 9]] Map.empty))
       = model demo_client"
proof -
  have sp: "set_parameters demo_client [NDArray [3] [9, 9, 9]]
      = (Inl (RuntimeError [Missing_keys [''b''], Size_mismatch ''w'']), demo_client)"
    by (simp add: set_parameters_def load_state_dict_def dict_def keys_def torch_tensor_def
        demo_client_def init_def demo_model_def Let_def)
  show ?thesis
    by (simp add: fit_def evaluate_def sp)
qed

text \<open>
  C2, as the code has it. A round whose validation fails (\<open>set_parameters\<close> raises, or
  the config lacks \<open>server_round\<close>, or \<open>local_epochs\<close> for \<open>fit\<close>) raises and
  leaves the client exactly as \<open>set_parameters\<close> left it: the engine has not run, and
  \<open>set_parameters\<close> touches nothing but the model's weights. It does not leave the
  weights as they were before the call: \<open>set_parameters\<close> runs before the config is
  read, so for a parameter set that matches the model the weights are the incoming ones.
\<close>

theorem failed_round_state:
  "(config ''server_round'' = None \<or> config ''local_epochs'' = None
      \<or> (\<exists>e. fst (set_parameters self ps) = Inl e)
    \<longrightarrow> (\<exists>e. fst (fit eng self ps config) = Inl e)
        \<and> snd (fit eng self ps config) = snd (set_parameters self ps))
   \<and> (config ''server_round'' = None \<or> (\<exists>e. fst (set_parameters self ps) = Inl e)
    \<longrightarrow> (\<exists>e. fst (evaluate eng self ps config) = Inl e)
        \<and> snd (evaluate eng self ps config) = snd (set_parameters self ps))
   \<and> snd (set_parameters self ps) = self\<lparr>model := model (snd (set_parameters self ps))\<rparr>
   \<and> (wf_model (model self) \<and> matches (model self) ps
    \<longrightarrow> set_parameters self ps
          = (Inr (), self\<lparr>model := zip (keys (model self)) (map torch_tensor ps)\<rparr>))"
proof -
  have f: "config ''server_round'' = None \<or> config ''local_epochs'' = None
      \<or> (\<exists>e. fst (set_parameters self ps) = Inl e)
    \<longrightarrow> (\<exists>e. fst (fit eng self ps config) = Inl e)
        \<and> snd (fit eng self ps config) = snd (set_parameters self ps)"
    by (cases "set_parameters self ps")
       (auto simp: fit_def split: sum.splits option.splits)
  have e: "config ''server_round'' = None \<or> (\<exists>e. fst (set_parameters self ps) = Inl e)
    \<longrightarrow> (\<exists>e. fst (evaluate eng self ps config) = Inl e)
        \<and> snd (evaluate eng self ps config) = snd (set_parameters self ps)"
    by (cases "set_parameters self ps")
       (auto simp: evaluate_def split: sum.splits option.splits)
  have l: "wf_model (model self) \<and> matches (model self) ps
    \<longrightarrow> set_parameters self ps
          = (Inr (), self\<lparr>model := zip (keys (model self)) (map torch_tensor ps)\<rparr>)"
    by (simp add: set_parameters_loads)
  from f e l set_parameters_frame [of self ps] show ?thesis by blast
qed

theorem failed_round_state_witness:
  "[''server_round'' \<mapsto> PyInt 1] ''local_epochs'' = None
   \<and> wf_model (model demo_client) \<and> matches (model demo_client) demo_parameters
   \<and> (\<exists>e. fst (fit demo_engine demo_client demo_parameters [''server_round'' \<mapsto> PyInt 1]) = Inl e)
   \<and> snd (fit demo_engine demo_client demo_parameters [''server_round'' \<mapsto> PyInt 1])
       = demo_client\<lparr>model := zip (keys (model demo_client)) (map torch_tensor demo_parameters)\<rparr>
   \<and> Map.empty ''server_round'' = (None :: pyval option)
   \<and> (\<exists>e. fst (evaluate demo_engine demo_client demo_parameters Map.empty) = Inl e)
   \<and> snd (evaluate demo_engine demo_client demo_parameters Map.empty)
       = demo_client\<lparr>model := zip (keys (model demo_client)) (map torch_tensor demo_parameters)\<rparr>"
proof -
  have none: "[''server_round'' \<mapsto> PyInt 1] ''local_epochs'' = None" by simp
  have none': "Map.empty ''server_round'' = (None :: pyval option)" by simp
  note a = failed_round_state [where config = "[''server_round'' \<mapsto> PyInt 1]"
      and eng = demo_engine and self = demo_client and ps = demo_parameters]
  note b = failed_round_state [where config = "Map.empty"
      and eng = demo_engine and self = demo_client and ps = demo_parameters]
  from a demo_wf demo_matches have sp: "set_parameters demo_client demo_parameters
     = (Inr (), demo_client\<lparr>model := zip (keys (model demo_client)) (map torch_tensor demo_parameters)\<rparr>)"
    by blast
  from a none have
    "(\<exists>e. fst (fit demo_engine demo_client demo_parameters [''server_round'' \<mapsto> PyInt 1]) = Inl e)
     \<and> snd (fit demo_engine demo_client demo_parameters [''server_round'' \<mapsto> PyInt 1])
         = snd (set_parameters demo_client demo_parameters)"
    by blast
  moreover from b none' have
    "(\<exists>e. fst (evaluate demo_engine demo_client demo_parameters Map.empty) = Inl e)
     \<and> snd (evaluate demo_engine demo_client demo_parameters Map.empty)
         = snd (set_parameters demo_client demo_parameters)"
    by blast
  ultimately show ?thesis using none none' demo_wf demo_matches sp by simp
qed

theorem failed_round_state_counterexample:
  "fst (fit demo_engine demo_client demo_parameters [''server_round'' \<mapsto> PyInt 1])
     = Inl (KeyError ''local_epochs'')
   \<and> model demo_client = [(''w'', Tensor [4] [1, 2, 3, 4]), (''b'', Tensor [2, 2] [5, 6, 7, 8])]
   \<and> model (snd (fit demo_engine demo_client demo_parameters [''server_round'' \<mapsto> PyInt 1]))
     = [(''w'', Tensor [4] [9, 9, 9, 9]), (''b'', Tensor [2, 2] [8, 8, 8, 8])]"
  by (simp add: fit_def set_parameters_loads [OF demo_wf demo_matches])
     (simp add: demo_client_def init_def demo_model_def demo_parameters_def keys_def
        torch_tensor_def)










subsection \<open>Decoding a parameter set that disagrees with the model\<close>




lemma evaluate_state: "snd (evaluate eng self ps config) = snd (set_parameters self ps)"
  by (cases "set_parameters self ps")
     (auto simp: evaluate_def split: sum.splits option.splits)

lemma evaluate_again:
  assumes "set_parameters self ps = (Inr (), self1)"
  shows "evaluate eng self1 ps config = evaluate eng self ps config"
  using assms set_parameters_again [OF assms] by (simp add: evaluate_def)

lemma set_parameters_num_examples:
  "num_examples (snd (set_parameters self ps)) = num_examples self"
  by (simp add: set_parameters_def Let_def split: prod.splits)

lemma set_parameters_optimizer:
  "optimizer (snd (set_parameters self ps)) = optimizer self"
  by (simp add: set_parameters_def Let_def split: prod.splits)

lemma fit_num_examples: "num_examples (snd (fit eng self ps config)) = num_examples self"
proof -
  obtain r self1 where sp: "set_parameters self ps = (r, self1)"
    by (cases "set_parameters self ps")
  with set_parameters_num_examples [of self ps]
  have ne: "num_examples self1 = num_examples self" by simp
  show ?thesis
    by (auto simp: fit_def sp ne Let_def split: sum.splits option.splits prod.splits)
qed

lemma evaluate_num_examples:
  "num_examples (snd (evaluate eng self ps config)) = num_examples self"
  by (simp add: evaluate_state set_parameters_num_examples)

lemma step_num_examples: "num_examples (step eng self c) = num_examples self"
  by (cases c) (simp_all add: fit_num_examples evaluate_num_examples)

lemma run_num_examples: "num_examples (run eng self calls) = num_examples self"
  unfolding run_def
  by (induction calls arbitrary: self) (simp_all add: step_num_examples)

lemma fit_reports_trainset:
  assumes "fst (fit eng self ps config) = Inr (params, n, metrics)"
  shows "num_examples self ''trainset'' = Some n"
proof -
  obtain r self1 where sp: "set_parameters self ps = (r, self1)"
    by (cases "set_parameters self ps")
  with set_parameters_num_examples [of self ps]
  have ne: "num_examples self1 = num_examples self" by simp
  from assms show ?thesis
    by (auto simp: fit_def sp ne Let_def split: sum.splits option.splits prod.splits)
qed

lemma evaluate_reports_valset:
  assumes "fst (evaluate eng self ps config) = Inr (loss, n, metrics)"
  shows "num_examples self ''valset'' = Some n"
proof -
  obtain r self1 where sp: "set_parameters self ps = (r, self1)"
    by (cases "set_parameters self ps")
  with set_parameters_num_examples [of self ps]
  have ne: "num_examples self1 = num_examples self" by simp
  from assms show ?thesis
    by (auto simp: evaluate_def sp ne split: sum.splits option.splits prod.splits)
qed

subsection \<open>What the rounds leave alone\<close>

text \<open>
  C7. \<open>evaluate\<close> does not touch the optimizer, whether it returns or raises, and so
  neither do two calls in a row. When the first call returns a result, the second call with
  the same parameter set and config returns the very same result (the same loss, sample count
  and metrics, hence the same loss and accuracy) and leaves the same client: the second
  \<open>set_parameters\<close> loads the same weights again and the evaluation pass sees the same
  model and the same validation feed.
\<close>

theorem evaluate_twice:
  "optimizer (snd (evaluate eng self ps config)) = optimizer self
   \<and> optimizer (snd (evaluate eng (snd (evaluate eng self ps config)) ps config))
       = optimizer self
   \<and> (\<forall>res. fst (evaluate eng self ps config) = Inr res \<longrightarrow>
          evaluate eng (snd (evaluate eng self ps config)) ps config
            = (Inr res, snd (evaluate eng self ps config)))"
proof (intro conjI allI impI)
  show "optimizer (snd (evaluate eng self ps config)) = optimizer self"
    by (simp add: evaluate_state set_parameters_optimizer)
  show "optimizer (snd (evaluate eng (snd (evaluate eng self ps config)) ps config))
       = optimizer self"
    by (simp add: evaluate_state set_parameters_optimizer)
next
  fix res assume res: "fst (evaluate eng self ps config) = Inr res"
  obtain r self1 where sp: "set_parameters self ps = (r, self1)"
    by (cases "set_parameters self ps")
  from res sp have "r = Inr ()"
    by (cases r) (auto simp: evaluate_def)
  with sp have sp': "set_parameters self ps = (Inr (), self1)" by simp
  from evaluate_state [of eng self ps config] sp
  have st: "snd (evaluate eng self ps config) = self1" by simp
  from evaluate_again [OF sp', of eng config] res st
  show "evaluate eng (snd (evaluate eng self ps config)) ps config
            = (Inr res, snd (evaluate eng self ps config))"
    by (metis prod.collapse)
qed

theorem evaluate_twice_witness:
  "fst (evaluate demo_engine demo_client demo_parameters [''server_round'' \<mapsto> PyInt 1])
     = Inr (PyFloat 2, PyInt 20,
            [''accuracy'' \<mapsto> PyFloat 1, ''loss'' \<mapsto> PyFloat 2, ''cid'' \<mapsto> PyInt 7])
   \<and> fst (evaluate demo_engine
           (snd (evaluate demo_engine demo_client demo_parameters [''server_round'' \<mapsto> PyInt 1]))
           demo_parameters [''server_round'' \<mapsto> PyInt 1])
     = Inr (PyFloat 2, PyInt 20,
            [''accuracy'' \<mapsto> PyFloat 1, ''loss'' \<mapsto> PyFloat 2, ''cid'' \<mapsto> PyInt 7])
   \<and> optimizer (snd (evaluate demo_engine
           (snd (evaluate demo_engine demo_client demo_parameters [''server_round'' \<mapsto> PyInt 1]))
           demo_parameters [''server_round'' \<mapsto> PyInt 1])) = 0"
proof -
  let ?config = "[''server_round'' \<mapsto> PyInt 1]"
  let ?res = "(PyFloat 2, PyInt 20,
            [''accuracy'' \<mapsto> PyFloat 1, ''loss'' \<mapsto> PyFloat 2, ''cid'' \<mapsto> PyInt 7])"
  have first: "fst (evaluate demo_engine demo_client demo_parameters ?config) = Inr ?res"
    by (simp add: evaluate_def set_parameters_loads [OF demo_wf demo_matches])
       (simp add: demo_engine_def demo_client_def init_def)
  have opt: "optimizer demo_client = 0"
    by (simp add: demo_client_def init_def demo_engine_def)
  note twice = evaluate_twice [where eng = demo_engine and self = demo_client
      and ps = demo_parameters and config = "[''server_round'' \<mapsto> PyInt 1]"]
  from twice first have
    "evaluate demo_engine (snd (evaluate demo_engine demo_client demo_parameters ?config))
        demo_parameters ?config
       = (Inr ?res, snd (evaluate demo_engine demo_client demo_parameters ?config))"
    by blast
  moreover from twice opt have
    "optimizer (snd (evaluate demo_engine
           (snd (evaluate demo_engine demo_client demo_parameters ?config))
           demo_parameters ?config)) = 0"
    by simp
  ultimately show ?thesis using first by simp
qed

text \<open>
  C8. The sample counts are those handed to the constructor, after any sequence of calls of
  \<open>fit\<close>, \<open>evaluate\<close> and \<open>get_parameters\<close>, whether the calls returned or
  raised; and the count a returning \<open>fit\<close> reports is their entry \<open>trainset\<close>, the
  count a returning \<open>evaluate\<close> reports their entry \<open>valset\<close>.
\<close>

theorem num_examples_fixed:
  "num_examples (run eng (init eng cid0 model0 train0 val0 num_examples0 conf0) calls)
     = num_examples0
   \<and> (\<forall>ps config params n metrics.
         fst (fit eng (run eng (init eng cid0 model0 train0 val0 num_examples0 conf0) calls)
                ps config) = Inr (params, n, metrics)
         \<longrightarrow> num_examples0 ''trainset'' = Some n)
   \<and> (\<forall>ps config loss n metrics.
         fst (evaluate eng (run eng (init eng cid0 model0 train0 val0 num_examples0 conf0) calls)
                ps config) = Inr (loss, n, metrics)
         \<longrightarrow> num_examples0 ''valset'' = Some n)"
proof -
  let ?self = "run eng (init eng cid0 model0 train0 val0 num_examples0 conf0) calls"
  have ne: "num_examples ?self = num_examples0"
    by (simp add: run_num_examples init_def)
  show ?thesis
  proof (intro conjI allI impI)
    show "num_examples ?self = num_examples0" by (rule ne)
  next
    fix ps config params n metrics
    assume "fst (fit eng ?self ps config) = Inr (params, n, metrics)"
    from fit_reports_trainset [OF this] ne show "num_examples0 ''trainset'' = Some n" by simp
  next
    fix ps config loss n metrics
    assume "fst (evaluate eng ?self ps config) = Inr (loss, n, metrics)"
    from evaluate_reports_valset [OF this] ne show "num_examples0 ''valset'' = Some n" by simp
  qed
qed

theorem num_examples_fixed_witness:
  "num_examples (run demo_engine demo_client
       [Evaluate demo_parameters [''server_round'' \<mapsto> PyInt 1], GetParameters Map.empty])
     = [''trainset'' \<mapsto> PyInt 100, ''valset'' \<mapsto> PyInt 20]
   \<and> fst (fit demo_engine
          (run demo_engine demo_client
             [Evaluate demo_parameters [''server_round'' \<mapsto> PyInt 1], GetParameters Map.empty])
          demo_parameters [''server_round'' \<mapsto> PyInt 2, ''local_epochs'' \<mapsto> PyInt 1])
       = Inr ([NDArray [4] [10, 10, 10, 10], NDArray [2, 2] [9, 9, 9, 9]], PyInt 100,
              [''accuracy'' \<mapsto> PyFloat 0, ''loss'' \<mapsto> PyFloat 1, ''cid'' \<mapsto> PyInt 7])
   \<and> [''trainset'' \<mapsto> PyInt 100, ''valset'' \<mapsto> PyInt 20] ''trainset'' = Some (PyInt 100)"
proof -
  let ?calls = "[Evaluate demo_parameters [''server_round'' \<mapsto> PyInt 1],
                 GetParameters Map.empty]"
  let ?self = "run demo_engine demo_client ?calls"
  let ?loaded = "demo_client\<lparr>model := zip (keys (model demo_client))
                                          (map torch_tensor demo_parameters)\<rparr>"
  have self: "?self = ?loaded"
    by (simp add: run_def evaluate_state set_parameters_loads [OF demo_wf demo_matches])
  have wf: "wf_model (model ?loaded)"
    by (simp add: wf_model_def keys_def demo_client_def init_def demo_model_def
        demo_parameters_def)
  have mt: "matches (model ?loaded) demo_parameters"
    by (simp add: matches_def keys_def demo_client_def init_def demo_model_def
        demo_parameters_def torch_tensor_def)
  have fit: "fst (fit demo_engine ?loaded demo_parameters
                 [''server_round'' \<mapsto> PyInt 2, ''local_epochs'' \<mapsto> PyInt 1])
       = Inr ([NDArray [4] [10, 10, 10, 10], NDArray [2, 2] [9, 9, 9, 9]], PyInt 100,
              [''accuracy'' \<mapsto> PyFloat 0, ''loss'' \<mapsto> PyFloat 1, ''cid'' \<mapsto> PyInt 7])"
    by (simp add: fit_def set_parameters_loads [OF wf mt])
       (simp add: demo_engine_def demo_client_def init_def demo_model_def demo_parameters_def
          keys_def torch_tensor_def get_parameters_def numpy_def)
  note fixed = num_examples_fixed [of demo_engine "PyInt 7" demo_model "''train''" "''val''"
      "[''trainset'' \<mapsto> PyInt 100, ''valset'' \<mapsto> PyInt 20]" "()" ?calls,
      folded demo_client_def]
  from fixed have "num_examples ?self = [''trainset'' \<mapsto> PyInt 100, ''valset'' \<mapsto> PyInt 20]"
    by blast
  moreover from fixed fit self have
    "[''trainset'' \<mapsto> PyInt 100, ''valset'' \<mapsto> PyInt 20] ''trainset'' = Some (PyInt 100)"
    by simp
  ultimately show ?thesis using fit self by simp
qed

end
